theory Spec2Isabelle
  imports Main "HOL-Library.Sublist"
begin

section \<open>Data model\<close>

text \<open>
  The country object built by \<open>getCountryDetails\<close> (CountryDetailsScreen.js, lines 54-61)
  and stored, as a whole, in the favourites array. The two coordinates are JavaScript
  numbers that the favourites logic never inspects; their type is a parameter.
\<close>

record 'n country =
  cca2 :: string
  name :: string
  capital :: string
  flagURL :: string
  latitude :: 'n
  longitude :: 'n

text \<open>
  The data of one Firestore document of the collection \<open>favoriteCountries\<close>. The field
  \<open>countries\<close> may be missing (\<open>None\<close>, JavaScript's \<open>undefined\<close>, which is falsy) or hold
  an array (\<open>Some cs\<close>, truthy also when empty).
\<close>

record 'n docData =
  countries :: "'n country list option"

text \<open>A document reference is a path: collection name and document id.\<close>

type_synonym docRef = "string \<times> string"

type_synonym 'n firestore = "docRef \<rightharpoonup> 'n docData"

record user =
  uid :: string

record firebase_auth =
  currentUser :: "user option"

datatype js_error = TypeError | FirestoreError

text \<open>
  What the screens share and what they emit: the signed-in user (\<open>auth\<close>), the database
  (\<open>db\<close>), the pop-ups shown by \<open>alert\<close> and the errors written by \<open>console.log\<close>, both
  in the order of emission. The objects \<open>auth\<close> and \<open>db\<close> are imported from \<open>firebaseConfig\<close>;
  their contents are not fixed by the screens and are arbitrary here.
\<close>

record 'n world =
  auth :: firebase_auth
  db :: "'n firestore"
  alerts :: "string list"
  console :: "js_error list"

text \<open>The \<open>useState\<close> variables that the favourites functions read or set.\<close>

record details_screen =
  countryAlreadyAdded :: bool

record 'n favorites_screen =
  countriesFromDB :: "'n country list"
  emptyFavoritesFromDB :: bool

definition initial_details_screen :: details_screen where
  "initial_details_screen = \<lparr>countryAlreadyAdded = False\<rparr>"

definition initial_favorites_screen :: "'n favorites_screen" where
  "initial_favorites_screen = \<lparr>countriesFromDB = [], emptyFavoritesFromDB = True\<rparr>"

section \<open>The document store\<close>

text \<open>
  The Firestore client is an external library. Each call is asynchronous and either
  resolves or rejects; which of the two is decided by the environment and is the first
  argument of each function below. A rejected call has no effect on the database.
  \<open>setDoc\<close> replaces the whole document, \<open>updateDoc\<close> replaces the named field of an
  existing document and rejects when there is no document, \<open>deleteDoc\<close> removes the
  document and \<open>getDoc\<close> returns a snapshot: \<open>None\<close> when the document does not exist
  (\<open>exists()\<close> is false), its data otherwise.
\<close>

definition doc :: "string \<Rightarrow> string \<Rightarrow> docRef" where
  "doc collection ident = (collection, ident)"

definition getDoc :: "bool \<Rightarrow> docRef \<Rightarrow> 'n firestore \<Rightarrow> js_error + 'n docData option" where
  "getDoc resolves ref store = (if resolves then Inr (store ref) else Inl FirestoreError)"

definition setDoc :: "bool \<Rightarrow> docRef \<Rightarrow> 'n docData \<Rightarrow> 'n firestore \<Rightarrow> js_error + 'n firestore" where
  "setDoc resolves ref d store =
     (if resolves then Inr (store(ref \<mapsto> d)) else Inl FirestoreError)"

definition updateDoc ::
  "bool \<Rightarrow> docRef \<Rightarrow> 'n country list \<Rightarrow> 'n firestore \<Rightarrow> js_error + 'n firestore" where
  "updateDoc resolves ref cs store =
     (if resolves then
        (case store ref of
           None \<Rightarrow> Inl FirestoreError
         | Some d \<Rightarrow> Inr (store(ref \<mapsto> d\<lparr>countries := Some cs\<rparr>)))
      else Inl FirestoreError)"

definition deleteDoc :: "bool \<Rightarrow> docRef \<Rightarrow> 'n firestore \<Rightarrow> js_error + 'n firestore" where
  "deleteDoc resolves ref store =
     (if resolves then Inr (store(ref := None)) else Inl FirestoreError)"

text \<open>
  \<open>doc(db, "favoriteCountries", auth.currentUser.uid)\<close>: reading \<open>uid\<close> of \<open>null\<close> throws
  a TypeError when nobody is signed in.
\<close>

definition favoritesRef :: "'n world \<Rightarrow> js_error + docRef" where
  "favoritesRef w =
     (case currentUser (auth w) of
        None \<Rightarrow> Inl TypeError
      | Some u \<Rightarrow> Inr (doc ''favoriteCountries'' (uid u)))"

section \<open>CountryDetailsScreen\<close>

text \<open>The \<open>catch\<close> block of \<open>addCountryToFavorites\<close> (lines 135-138).\<close>

definition addCountryToFavorites_catch ::
  "'n country \<Rightarrow> js_error \<Rightarrow> 'n world \<Rightarrow> 'n world" where
  "addCountryToFavorites_catch country err w =
     w\<lparr>alerts := alerts w @ [name country @ '' could not be added to your favorites! Please try again''],
       console := console w @ [err]\<rparr>"

text \<open>
  \<open>addCountryToFavorites\<close> (lines 78-139). \<open>getResolves\<close> and \<open>setResolves\<close> are the
  outcomes of its \<open>getDoc\<close> and \<open>setDoc\<close> calls. At each point where the \<open>try\<close> block can
  throw, the \<open>catch\<close> block runs in the state reached so far.
\<close>

definition addCountryToFavorites ::
  "bool \<Rightarrow> bool \<Rightarrow> 'n country \<Rightarrow> 'n world \<Rightarrow> details_screen \<Rightarrow> 'n world \<times> details_screen" where
  "addCountryToFavorites getResolves setResolves country w s =
     (case favoritesRef w of
        Inl err \<Rightarrow> (addCountryToFavorites_catch country err w, s)
      | Inr docRef \<Rightarrow>
        (case getDoc getResolves docRef (db w) of
           Inl err \<Rightarrow> (addCountryToFavorites_catch country err w, s)
         | Inr docSnapshot \<Rightarrow>
           (case docSnapshot of
              Some docData \<Rightarrow>
                (let favoriteCountries = (case countries docData of Some cs \<Rightarrow> cs | None \<Rightarrow> []);
                     isCountryAlreadyAdded =
                       find (\<lambda>favCountry. cca2 favCountry = cca2 country) favoriteCountries
                 in case isCountryAlreadyAdded of
                      None \<Rightarrow>
                        (let updatedCountries = favoriteCountries @ [country]
                         in case setDoc setResolves docRef \<lparr>countries = Some updatedCountries\<rparr> (db w) of
                              Inl err \<Rightarrow> (addCountryToFavorites_catch country err w, s)
                            | Inr db' \<Rightarrow>
                                (w\<lparr>db := db',
                                   alerts := alerts w @ [name country @ '' has been added to your favorites!'']\<rparr>,
                                 s\<lparr>countryAlreadyAdded := True\<rparr>))
                    | Some _ \<Rightarrow>
                        (w\<lparr>alerts := alerts w @ [name country @ '' is already in your favorites list!'']\<rparr>,
                         s))
            | None \<Rightarrow>
                (let favoriteCountries = [] @ [country]
                 in case setDoc setResolves docRef \<lparr>countries = Some favoriteCountries\<rparr> (db w) of
                      Inl err \<Rightarrow> (addCountryToFavorites_catch country err w, s)
                    | Inr db' \<Rightarrow>
                        (w\<lparr>db := db',
                           alerts := alerts w @ [name country @ '' has been added to your favorites!'']\<rparr>,
                         s\<lparr>countryAlreadyAdded := True\<rparr>)))))"

text \<open>
  \<open>getCountryFromDB\<close> (lines 152-175): sets the flag when the code is found and leaves it
  as it is otherwise.
\<close>

definition getCountryFromDB ::
  "bool \<Rightarrow> string \<Rightarrow> 'n world \<Rightarrow> details_screen \<Rightarrow> 'n world \<times> details_screen" where
  "getCountryFromDB getResolves code w s =
     (let catch = (\<lambda>err. (w\<lparr>alerts := alerts w @ [''Error getting '' @ code @ '' from the database!''],
                              console := console w @ [err]\<rparr>, s))
      in case favoritesRef w of
           Inl err \<Rightarrow> catch err
         | Inr docRef \<Rightarrow>
           (case getDoc getResolves docRef (db w) of
              Inl err \<Rightarrow> catch err
            | Inr docSnapshot \<Rightarrow>
              (case docSnapshot of
                 Some docData \<Rightarrow>
                   (let favoriteCountries = (case countries docData of Some cs \<Rightarrow> cs | None \<Rightarrow> []);
                        isCountryAlreadyAdded =
                          find (\<lambda>favCountry. cca2 favCountry = code) favoriteCountries
                    in case isCountryAlreadyAdded of
                         Some _ \<Rightarrow> (w, s\<lparr>countryAlreadyAdded := True\<rparr>)
                       | None \<Rightarrow> (w, s))
               | None \<Rightarrow> (w, s))))"

text \<open>
  The screen calls \<open>getCountryFromDB\<close> once, when it mounts (lines 30-34), with the flag at
  its initial value; the flag after that call is the answer to "is this a favourite?".
\<close>

definition queryIsFavorite :: "bool \<Rightarrow> string \<Rightarrow> 'n world \<Rightarrow> bool" where
  "queryIsFavorite getResolves code w =
     countryAlreadyAdded (snd (getCountryFromDB getResolves code w initial_details_screen))"

section \<open>FavoriteCountriesScreen\<close>

text \<open>\<open>getCountriesFromDB\<close> (lines 45-61).\<close>

definition getCountriesFromDB ::
  "bool \<Rightarrow> 'n world \<Rightarrow> 'n favorites_screen \<Rightarrow> 'n world \<times> 'n favorites_screen" where
  "getCountriesFromDB getResolves w s =
     (let catch = (\<lambda>err. (w\<lparr>alerts := alerts w @ [''Failed to get countries from the database! Please try again''],
                              console := console w @ [err]\<rparr>, s))
      in case favoritesRef w of
           Inl err \<Rightarrow> catch err
         | Inr countriesRef \<Rightarrow>
           (case getDoc getResolves countriesRef (db w) of
              Inl err \<Rightarrow> catch err
            | Inr countriesSnapshot \<Rightarrow>
              (case countriesSnapshot of
                 Some countriesData \<Rightarrow>
                   (case countries countriesData of
                      Some cs \<Rightarrow>
                        if length cs > 0
                        then (w, s\<lparr>emptyFavoritesFromDB := False, countriesFromDB := cs\<rparr>)
                        else (w, s)
                    | None \<Rightarrow> (w, s))
               | None \<Rightarrow> (w, s))))"

text \<open>The \<open>catch\<close> block of \<open>deleteCountryFromFavorites\<close> (lines 110-113).\<close>

definition deleteCountryFromFavorites_catch ::
  "'n country \<Rightarrow> js_error \<Rightarrow> 'n world \<Rightarrow> 'n world" where
  "deleteCountryFromFavorites_catch country err w =
     w\<lparr>alerts := alerts w @ [name country @ '' could not be deleted! Please try again''],
       console := console w @ [err]\<rparr>"

text \<open>
  \<open>deleteCountryFromFavorites\<close> (lines 74-114). \<open>writeResolves\<close> is the outcome of its
  \<open>updateDoc\<close> or \<open>deleteDoc\<close> call, \<open>refreshResolves\<close> that of the \<open>getDoc\<close> call of the
  refresh. The refresh is started without \<open>await\<close>: it suspends at its \<open>getDoc\<close>, the
  confirmation is shown, and the refresh completes afterwards.
\<close>

definition deleteCountryFromFavorites ::
  "bool \<Rightarrow> bool \<Rightarrow> 'n country \<Rightarrow> 'n world \<Rightarrow> 'n favorites_screen \<Rightarrow> 'n world \<times> 'n favorites_screen" where
  "deleteCountryFromFavorites writeResolves refreshResolves country w s =
     (let updatedFavoriteCountries = filter (\<lambda>i. cca2 i \<noteq> cca2 country) (countriesFromDB s)
      in if length updatedFavoriteCountries > 0 then
           (case favoritesRef w of
              Inl err \<Rightarrow> (deleteCountryFromFavorites_catch country err w, s)
            | Inr countriesRef \<Rightarrow>
              (case updateDoc writeResolves countriesRef updatedFavoriteCountries (db w) of
                 Inl err \<Rightarrow> (deleteCountryFromFavorites_catch country err w, s)
               | Inr db' \<Rightarrow>
                   getCountriesFromDB refreshResolves
                     (w\<lparr>db := db',
                        alerts := alerts w @ [name country @ '' was deleted from your favorites!'']\<rparr>)
                     (s\<lparr>countriesFromDB := updatedFavoriteCountries\<rparr>)))
         else
           (case favoritesRef w of
              Inl err \<Rightarrow> (deleteCountryFromFavorites_catch country err w, s)
            | Inr countriesRef \<Rightarrow>
              (case deleteDoc writeResolves countriesRef (db w) of
                 Inl err \<Rightarrow> (deleteCountryFromFavorites_catch country err w, s)
               | Inr db' \<Rightarrow>
                   (w\<lparr>db := db',
                      alerts := alerts w @ [name country @ '' was deleted from your favorites!'']\<rparr>,
                    s\<lparr>emptyFavoritesFromDB := True\<rparr>))))"

section \<open>Vocabulary of the claims\<close>

text \<open>The favourites document of the signed-in user, and its sequence of countries.\<close>

definition favoritesDocument :: "'n world \<Rightarrow> 'n docData option" where
  "favoritesDocument w =
     (case favoritesRef w of Inl _ \<Rightarrow> None | Inr ref \<Rightarrow> db w ref)"

definition currentCountries :: "'n world \<Rightarrow> 'n country list" where
  "currentCountries w =
     (case favoritesDocument w of
        None \<Rightarrow> []
      | Some d \<Rightarrow> (case countries d of None \<Rightarrow> [] | Some cs \<Rightarrow> cs))"

definition signedIn :: "'n world \<Rightarrow> bool" where
  "signedIn w = (currentUser (auth w) \<noteq> None)"

definition favoritesInvariant :: "'n world \<Rightarrow> bool" where
  "favoritesInvariant w =
     (case favoritesDocument w of
        None \<Rightarrow> True
      | Some d \<Rightarrow> (case countries d of None \<Rightarrow> False | Some cs \<Rightarrow> cs \<noteq> []))"

text \<open>What a run from \<open>w\<close> to \<open>w'\<close> showed and logged: the pop-ups and errors added.\<close>

definition emitted :: "'n world \<Rightarrow> 'n world \<Rightarrow> string list \<times> js_error list" where
  "emitted w w' = (drop (length (alerts w)) (alerts w'), drop (length (console w)) (console w'))"

section \<open>Concrete data\<close>

definition exampleCountry :: "string \<Rightarrow> string \<Rightarrow> string \<Rightarrow> int country" where
  "exampleCountry code nm cap =
     \<lparr>cca2 = code, name = nm, capital = cap,
      flagURL = ''https://flagcdn.com/w320/'' @ code @ ''.png'',
      latitude = 0, longitude = 0\<rparr>"

definition US :: "int country" where
  "US = exampleCountry ''US'' ''United States'' ''Washington, D.C.''"

definition CA :: "int country" where
  "CA = exampleCountry ''CA'' ''Canada'' ''Ottawa''"

definition MX :: "int country" where
  "MX = exampleCountry ''MX'' ''Mexico'' ''Mexico City''"

text \<open>User \<open>user1\<close> is signed in; the database holds at most that user's document.\<close>

definition exampleWorld :: "int docData option \<Rightarrow> int world" where
  "exampleWorld d =
     \<lparr>auth = \<lparr>currentUser = Some \<lparr>uid = ''user1''\<rparr>\<rparr>,
      db = (\<lambda>ref. if ref = doc ''favoriteCountries'' ''user1'' then d else None),
      alerts = [], console = []\<rparr>"

section \<open>Auxiliary facts\<close>

lemma signedInE:
  assumes "signedIn w"
  obtains u where "currentUser (auth w) = Some u"
    and "favoritesRef w = Inr (doc ''favoriteCountries'' (uid u))"
  using assms by (auto simp: signedIn_def favoritesRef_def)

lemma find_code_None: "find (\<lambda>f. cca2 f = code) cs = None \<Longrightarrow> code \<notin> cca2 ` set cs"
  by (auto simp: find_None_iff)

lemma find_code_Some: "find (\<lambda>f. cca2 f = code) cs = Some x \<Longrightarrow> code \<in> cca2 ` set cs"
  by (induction cs) (auto split: if_splits)

lemma find_code_absent: "code \<notin> cca2 ` set cs \<Longrightarrow> find (\<lambda>f. cca2 f = code) cs = None"
  by (auto simp: find_None_iff)

lemma find_code_present:
  "code \<in> cca2 ` set cs \<Longrightarrow> \<exists>x. find (\<lambda>f. cca2 f = code) cs = Some x"
  by (cases "find (\<lambda>f. cca2 f = code) cs") (auto dest: find_code_None)

lemma signedIn_exampleWorld: "signedIn (exampleWorld d)"
  by (simp add: signedIn_def exampleWorld_def)

lemma favoritesRef_exampleWorld:
  "favoritesRef (exampleWorld d) = Inr (doc ''favoriteCountries'' ''user1'')"
  by (simp add: favoritesRef_def exampleWorld_def)

lemma favoritesDocument_exampleWorld: "favoritesDocument (exampleWorld d) = d"
  by (simp add: favoritesDocument_def favoritesRef_def exampleWorld_def)

lemma getCountryFromDB_flag:
  assumes "signedIn w"
  shows "countryAlreadyAdded (snd (getCountryFromDB True code w s)) \<longleftrightarrow>
           countryAlreadyAdded s \<or>
           (\<exists>d cs. favoritesDocument w = Some d \<and> countries d = Some cs \<and> code \<in> cca2 ` set cs)"
proof -
  from assms obtain u where u: "currentUser (auth w) = Some u"
    and ref: "favoritesRef w = Inr (doc ''favoriteCountries'' (uid u))"
    by (rule signedInE)
  show ?thesis
    by (auto simp: getCountryFromDB_def favoritesDocument_def ref getDoc_def Let_def
          split: option.splits dest: find_code_None find_code_Some)
qed

lemma getCountryFromDB_db: "db (fst (getCountryFromDB getResolves code w s)) = db w"
  by (auto simp: getCountryFromDB_def getDoc_def Let_def split: option.splits sum.splits)

section \<open>Membership query\<close>

text \<open>
  Claim C4. For a signed-in user whose read resolves, the membership query answers true
  exactly when the user's document exists and its \<open>countries\<close> array has an entry with the
  requested code; so it answers false when there is no document, when the field is missing
  or empty, and when no entry matches. Whatever the outcome of the read, the database is
  left as it was.
\<close>

theorem queryIsFavorite_iff:
  assumes "signedIn w"
  shows "(queryIsFavorite True code w \<longleftrightarrow>
           (\<exists>d cs. favoritesDocument w = Some d \<and> countries d = Some cs \<and> code \<in> cca2 ` set cs))
         \<and> db (fst (getCountryFromDB getResolves code w s)) = db w"
  using getCountryFromDB_flag [OF assms, of code initial_details_screen]
  by (simp add: queryIsFavorite_def getCountryFromDB_db initial_details_screen_def)

theorem queryIsFavorite_iff_witness:
  "signedIn (exampleWorld (Some \<lparr>countries = Some [US, CA]\<rparr>))
   \<and> queryIsFavorite True ''CA'' (exampleWorld (Some \<lparr>countries = Some [US, CA]\<rparr>))"
proof -
  have s1: "signedIn (exampleWorld (Some \<lparr>countries = Some [US, CA]\<rparr>))"
    by (rule signedIn_exampleWorld)
  have "queryIsFavorite True ''CA'' (exampleWorld (Some \<lparr>countries = Some [US, CA]\<rparr>))"
    using queryIsFavorite_iff [OF s1, THEN conjunct1, of "''CA''"]
    by (simp add: favoritesDocument_exampleWorld CA_def exampleCountry_def)
  with s1 show ?thesis by simp
qed

section \<open>Adding a favourite\<close>

lemma addCountryToFavorites_new:
  assumes "signedIn w" and "cca2 country \<notin> cca2 ` set (currentCountries w)"
  obtains u where "currentUser (auth w) = Some u"
    and "addCountryToFavorites True True country w s =
          (w\<lparr>db := (db w)(doc ''favoriteCountries'' (uid u) \<mapsto>
                        \<lparr>countries = Some (currentCountries w @ [country])\<rparr>),
              alerts := alerts w @ [name country @ '' has been added to your favorites!'']\<rparr>,
           s\<lparr>countryAlreadyAdded := True\<rparr>)"
proof -
  from assms(1) obtain u where u: "currentUser (auth w) = Some u"
    and ref: "favoritesRef w = Inr (doc ''favoriteCountries'' (uid u))"
    by (rule signedInE)
  have nf: "find (\<lambda>f. cca2 f = cca2 country) (currentCountries w) = None"
    using assms(2) by (rule find_code_absent)
  have "addCountryToFavorites True True country w s =
          (w\<lparr>db := (db w)(doc ''favoriteCountries'' (uid u) \<mapsto>
                        \<lparr>countries = Some (currentCountries w @ [country])\<rparr>),
              alerts := alerts w @ [name country @ '' has been added to your favorites!'']\<rparr>,
           s\<lparr>countryAlreadyAdded := True\<rparr>)"
    using nf
    by (auto simp: addCountryToFavorites_def ref getDoc_def setDoc_def Let_def currentCountries_def
          favoritesDocument_def split: option.splits)
  with u show thesis by (rule that)
qed

text \<open>
  Claim C1. A user is signed in and both store calls resolve. When no entry of the current
  sequence (empty when the document does not exist or has no \<open>countries\<close> field) has the
  code of the country, \<open>addCountryToFavorites\<close> leaves the user's document holding the
  current sequence with the country appended at the end, and a membership query for that
  code, run afterwards, answers true.
\<close>

theorem addFavorite_appends:
  assumes "signedIn w" and "cca2 country \<notin> cca2 ` set (currentCountries w)"
  shows "favoritesDocument (fst (addCountryToFavorites True True country w s))
           = Some \<lparr>countries = Some (currentCountries w @ [country])\<rparr>
         \<and> queryIsFavorite True (cca2 country) (fst (addCountryToFavorites True True country w s))"
proof -
  let ?w' = "fst (addCountryToFavorites True True country w s)"
  from assms obtain u where u: "currentUser (auth w) = Some u"
    and run: "addCountryToFavorites True True country w s =
          (w\<lparr>db := (db w)(doc ''favoriteCountries'' (uid u) \<mapsto>
                        \<lparr>countries = Some (currentCountries w @ [country])\<rparr>),
              alerts := alerts w @ [name country @ '' has been added to your favorites!'']\<rparr>,
           s\<lparr>countryAlreadyAdded := True\<rparr>)"
    by (rule addCountryToFavorites_new)
  have doc': "favoritesDocument ?w' = Some \<lparr>countries = Some (currentCountries w @ [country])\<rparr>"
    by (simp add: favoritesDocument_def favoritesRef_def run u)
  have "signedIn ?w'"
    by (simp add: signedIn_def run u)
  then have "countryAlreadyAdded (snd (getCountryFromDB True (cca2 country) ?w' initial_details_screen))"
    using doc' by (simp add: getCountryFromDB_flag)
  with doc' show ?thesis by (simp add: queryIsFavorite_def)
qed

theorem addFavorite_appends_witness:
  "signedIn (exampleWorld (Some \<lparr>countries = Some [US, CA]\<rparr>))
   \<and> cca2 MX \<notin> cca2 ` set (currentCountries (exampleWorld (Some \<lparr>countries = Some [US, CA]\<rparr>)))
   \<and> favoritesDocument (fst (addCountryToFavorites True True MX
         (exampleWorld (Some \<lparr>countries = Some [US, CA]\<rparr>)) initial_details_screen))
       = Some \<lparr>countries = Some [US, CA, MX]\<rparr>
   \<and> queryIsFavorite True ''MX'' (fst (addCountryToFavorites True True MX
         (exampleWorld (Some \<lparr>countries = Some [US, CA]\<rparr>)) initial_details_screen))"
proof -
  let ?w = "exampleWorld (Some \<lparr>countries = Some [US, CA]\<rparr>)"
  have s1: "signedIn ?w"
    by (rule signedIn_exampleWorld)
  have cur: "currentCountries ?w = [US, CA]"
    by (simp add: currentCountries_def favoritesDocument_exampleWorld)
  have fresh: "cca2 MX \<notin> cca2 ` set (currentCountries ?w)"
    unfolding cur by (simp add: US_def CA_def MX_def exampleCountry_def)
  have mx: "cca2 MX = ''MX''"
    by (simp add: MX_def exampleCountry_def)
  show ?thesis
    using addFavorite_appends [OF s1 fresh, of initial_details_screen] s1 fresh
    by (simp add: cur mx)
qed

text \<open>
  Claim C2. A user is signed in and the read resolves. When an entry of the stored sequence
  already has the code of the country, \<open>addCountryToFavorites\<close> writes nothing, whatever the
  outcome a write would have had: the database is the one it started from, the screen state
  is untouched, and the only thing emitted is the notice that the country is already in the
  list, with nothing logged as an error.
\<close>

theorem addFavorite_already_present:
  assumes "signedIn w" and "favoritesDocument w = Some d" and "countries d = Some cs"
    and "cca2 country \<in> cca2 ` set cs"
  shows "addCountryToFavorites True setResolves country w s =
           (w\<lparr>alerts := alerts w @ [name country @ '' is already in your favorites list!'']\<rparr>, s)
         \<and> db (fst (addCountryToFavorites True setResolves country w s)) = db w
         \<and> emitted w (fst (addCountryToFavorites True setResolves country w s)) =
             ([name country @ '' is already in your favorites list!''], [])"
proof -
  from assms(1) obtain u where u: "currentUser (auth w) = Some u"
    and ref: "favoritesRef w = Inr (doc ''favoriteCountries'' (uid u))"
    by (rule signedInE)
  from assms(4) obtain x where x: "find (\<lambda>f. cca2 f = cca2 country) cs = Some x"
    using find_code_present by blast
  have d: "db w (doc ''favoriteCountries'' (uid u)) = Some d"
    using assms(2) by (simp add: favoritesDocument_def ref)
  have run: "addCountryToFavorites True setResolves country w s =
           (w\<lparr>alerts := alerts w @ [name country @ '' is already in your favorites list!'']\<rparr>, s)"
    by (simp add: addCountryToFavorites_def ref getDoc_def d assms(3) x)
  show ?thesis
    by (simp add: run emitted_def)
qed

theorem addFavorite_already_present_witness:
  "signedIn (exampleWorld (Some \<lparr>countries = Some [US, CA]\<rparr>))
   \<and> favoritesDocument (exampleWorld (Some \<lparr>countries = Some [US, CA]\<rparr>)) = Some \<lparr>countries = Some [US, CA]\<rparr>
   \<and> cca2 US \<in> cca2 ` set [US, CA]
   \<and> addCountryToFavorites True False US (exampleWorld (Some \<lparr>countries = Some [US, CA]\<rparr>))
        initial_details_screen =
      (exampleWorld (Some \<lparr>countries = Some [US, CA]\<rparr>)
         \<lparr>alerts := [''United States is already in your favorites list!'']\<rparr>, initial_details_screen)"
proof -
  let ?w = "exampleWorld (Some \<lparr>countries = Some [US, CA]\<rparr>)"
  have s1: "signedIn ?w"
    by (rule signedIn_exampleWorld)
  have d1: "favoritesDocument ?w = Some \<lparr>countries = Some [US, CA]\<rparr>"
    by (rule favoritesDocument_exampleWorld)
  have c1: "countries \<lparr>countries = Some [US, CA]\<rparr> = Some [US, CA]"
    by simp
  have m1: "cca2 US \<in> cca2 ` set [US, CA]"
    by simp
  have al: "alerts ?w = []" and nm: "name US = ''United States''"
    by (simp_all add: exampleWorld_def US_def exampleCountry_def)
  show ?thesis
    using addFavorite_already_present [OF s1 d1 c1 m1, of False initial_details_screen] s1 d1 m1
    by (simp add: al nm)
qed

section \<open>The branches of the two mutations\<close>

lemma currentCountries_signedIn:
  "favoritesRef w = Inr ref \<Longrightarrow>
   currentCountries w = (case db w ref of None \<Rightarrow> [] | Some d \<Rightarrow> (case countries d of None \<Rightarrow> [] | Some cs \<Rightarrow> cs))"
  by (simp add: currentCountries_def favoritesDocument_def)

lemma addCountryToFavorites_cases:
  obtains
    (failed) err where
      "addCountryToFavorites g r country w s = (addCountryToFavorites_catch country err w, s)"
      and "\<not> (signedIn w \<and> g \<and> r)"
  | (present)
      "addCountryToFavorites g r country w s =
         (w\<lparr>alerts := alerts w @ [name country @ '' is already in your favorites list!'']\<rparr>, s)"
      and "signedIn w" and "g" and "cca2 country \<in> cca2 ` set (currentCountries w)"
  | (added) u where
      "addCountryToFavorites g r country w s =
         (w\<lparr>db := (db w)(doc ''favoriteCountries'' (uid u) \<mapsto>
                       \<lparr>countries = Some (currentCountries w @ [country])\<rparr>),
             alerts := alerts w @ [name country @ '' has been added to your favorites!'']\<rparr>,
          s\<lparr>countryAlreadyAdded := True\<rparr>)"
      and "currentUser (auth w) = Some u" and "g" and "r"
      and "cca2 country \<notin> cca2 ` set (currentCountries w)"
proof (cases "currentUser (auth w)")
  case None
  then have "addCountryToFavorites g r country w s = (addCountryToFavorites_catch country TypeError w, s)"
    by (simp add: addCountryToFavorites_def favoritesRef_def)
  moreover have "\<not> (signedIn w \<and> g \<and> r)"
    using None by (simp add: signedIn_def)
  ultimately show ?thesis by (rule failed)
next
  case (Some u)
  then have ref: "favoritesRef w = Inr (doc ''favoriteCountries'' (uid u))"
    by (simp add: favoritesRef_def)
  have sg: "signedIn w"
    using Some by (simp add: signedIn_def)
  note cur = currentCountries_signedIn [OF ref]
  show ?thesis
  proof (cases g)
    case False
    then have "addCountryToFavorites g r country w s = (addCountryToFavorites_catch country FirestoreError w, s)"
      by (simp add: addCountryToFavorites_def ref getDoc_def)
    then show ?thesis using False by (auto intro: failed)
  next
    case True
    show ?thesis
    proof (cases "find (\<lambda>f. cca2 f = cca2 country) (currentCountries w)")
      case (Some x)
      then have mem: "cca2 country \<in> cca2 ` set (currentCountries w)"
        by (rule find_code_Some)
      have "addCountryToFavorites g r country w s =
         (w\<lparr>alerts := alerts w @ [name country @ '' is already in your favorites list!'']\<rparr>, s)"
        using Some True
        by (auto simp: addCountryToFavorites_def ref getDoc_def cur Let_def split: option.splits)
      then show ?thesis using sg True mem by (rule present)
    next
      case None
      then have nmem: "cca2 country \<notin> cca2 ` set (currentCountries w)"
        by (rule find_code_None)
      show ?thesis
      proof (cases r)
        case False
        then have "addCountryToFavorites g r country w s =
            (addCountryToFavorites_catch country FirestoreError w, s)"
          using None True
          by (auto simp: addCountryToFavorites_def ref getDoc_def setDoc_def cur Let_def
                split: option.splits)
        then show ?thesis using False by (auto intro: failed)
      next
        case r: True
        have "addCountryToFavorites g r country w s =
          (w\<lparr>db := (db w)(doc ''favoriteCountries'' (uid u) \<mapsto>
                       \<lparr>countries = Some (currentCountries w @ [country])\<rparr>),
             alerts := alerts w @ [name country @ '' has been added to your favorites!'']\<rparr>,
          s\<lparr>countryAlreadyAdded := True\<rparr>)"
          using None True r
          by (auto simp: addCountryToFavorites_def ref getDoc_def setDoc_def cur Let_def
                split: option.splits)
        then show ?thesis using \<open>currentUser (auth w) = Some u\<close> True r nmem by (rule added)
      qed
    qed
  qed
qed

lemma getCountriesFromDB_world:
  "auth (fst (getCountriesFromDB rr w s)) = auth w \<and> db (fst (getCountriesFromDB rr w s)) = db w
   \<and> prefix (alerts w) (alerts (fst (getCountriesFromDB rr w s)))"
  by (auto simp: getCountriesFromDB_def getDoc_def Let_def split: option.splits sum.splits)

lemma getCountriesFromDB_cached:
  "countriesFromDB (snd (getCountriesFromDB rr w s)) =
     (if signedIn w \<and> rr \<and> currentCountries w \<noteq> [] then currentCountries w else countriesFromDB s)"
  by (auto simp: getCountriesFromDB_def getDoc_def Let_def signedIn_def favoritesRef_def
        currentCountries_def favoritesDocument_def split: option.splits sum.splits)

lemma deleteCountryFromFavorites_cases:
  fixes country :: "'n country" and s :: "'n favorites_screen"
  defines "kept \<equiv> filter (\<lambda>i. cca2 i \<noteq> cca2 country) (countriesFromDB s)"
  obtains
    (failed) err where
      "deleteCountryFromFavorites wr rr country w s = (deleteCountryFromFavorites_catch country err w, s)"
      and "\<not> signedIn w \<or> \<not> wr \<or> (kept \<noteq> [] \<and> favoritesDocument w = None)"
  | (updated) u d where
      "deleteCountryFromFavorites wr rr country w s =
         getCountriesFromDB rr
           (w\<lparr>db := (db w)(doc ''favoriteCountries'' (uid u) \<mapsto> d\<lparr>countries := Some kept\<rparr>),
              alerts := alerts w @ [name country @ '' was deleted from your favorites!'']\<rparr>)
           (s\<lparr>countriesFromDB := kept\<rparr>)"
      and "currentUser (auth w) = Some u" and "wr" and "kept \<noteq> []"
      and "favoritesDocument w = Some d"
  | (deleted) u where
      "deleteCountryFromFavorites wr rr country w s =
         (w\<lparr>db := (db w)(doc ''favoriteCountries'' (uid u) := None),
            alerts := alerts w @ [name country @ '' was deleted from your favorites!'']\<rparr>,
          s\<lparr>emptyFavoritesFromDB := True\<rparr>)"
      and "currentUser (auth w) = Some u" and "wr" and "kept = []"
proof (cases "currentUser (auth w)")
  case None
  then have "deleteCountryFromFavorites wr rr country w s =
      (deleteCountryFromFavorites_catch country TypeError w, s)"
    by (simp add: deleteCountryFromFavorites_def Let_def favoritesRef_def)
  moreover have "\<not> signedIn w \<or> \<not> wr \<or> (kept \<noteq> [] \<and> favoritesDocument w = None)"
    using None by (simp add: signedIn_def)
  ultimately show ?thesis by (rule failed)
next
  case (Some u)
  then have ref: "favoritesRef w = Inr (doc ''favoriteCountries'' (uid u))"
    by (simp add: favoritesRef_def)
  have fd: "favoritesDocument w = db w (doc ''favoriteCountries'' (uid u))"
    by (simp add: favoritesDocument_def ref)
  show ?thesis
  proof (cases wr)
    case False
    then have "deleteCountryFromFavorites wr rr country w s =
        (deleteCountryFromFavorites_catch country FirestoreError w, s)"
      by (simp add: deleteCountryFromFavorites_def Let_def ref updateDoc_def deleteDoc_def)
    then show ?thesis using False by (auto intro: failed)
  next
    case True
    show ?thesis
    proof (cases "kept = []")
      case e: True
      then have "deleteCountryFromFavorites wr rr country w s =
         (w\<lparr>db := (db w)(doc ''favoriteCountries'' (uid u) := None),
            alerts := alerts w @ [name country @ '' was deleted from your favorites!'']\<rparr>,
          s\<lparr>emptyFavoritesFromDB := True\<rparr>)"
        using True by (simp add: deleteCountryFromFavorites_def Let_def ref deleteDoc_def kept_def)
      then show ?thesis using Some True e by (rule deleted)
    next
      case ne: False
      show ?thesis
      proof (cases "favoritesDocument w")
        case None
        then have "deleteCountryFromFavorites wr rr country w s =
            (deleteCountryFromFavorites_catch country FirestoreError w, s)"
          using ne True
          by (simp add: deleteCountryFromFavorites_def Let_def ref updateDoc_def kept_def fd)
        then show ?thesis using ne None by (auto intro: failed)
      next
        case d: (Some d)
        then have "deleteCountryFromFavorites wr rr country w s =
         getCountriesFromDB rr
           (w\<lparr>db := (db w)(doc ''favoriteCountries'' (uid u) \<mapsto> d\<lparr>countries := Some kept\<rparr>),
              alerts := alerts w @ [name country @ '' was deleted from your favorites!'']\<rparr>)
           (s\<lparr>countriesFromDB := kept\<rparr>)"
          using ne True
          by (simp add: deleteCountryFromFavorites_def Let_def ref updateDoc_def kept_def fd)
        then show ?thesis using Some True ne d by (rule updated)
      qed
    qed
  qed
qed


lemma favoritesDocument_alt:
  "favoritesDocument w =
     (case currentUser (auth w) of None \<Rightarrow> None | Some u \<Rightarrow> db w (doc ''favoriteCountries'' (uid u)))"
  by (simp add: favoritesDocument_def favoritesRef_def split: option.splits)

lemma favoritesDocument_cong:
  "auth w' = auth w \<Longrightarrow> db w' = db w \<Longrightarrow> favoritesDocument w' = favoritesDocument w"
  by (simp add: favoritesDocument_alt split: option.splits)

lemma addCountryToFavorites_document:
  "favoritesDocument (fst (addCountryToFavorites g r country w s)) =
     (if signedIn w \<and> g \<and> r \<and> cca2 country \<notin> cca2 ` set (currentCountries w)
      then Some \<lparr>countries = Some (currentCountries w @ [country])\<rparr>
      else favoritesDocument w)"
proof (cases rule: addCountryToFavorites_cases [where g = g and r = r and country = country and w = w and s = s])
  case (failed err)
  have "favoritesDocument (fst (addCountryToFavorites g r country w s)) = favoritesDocument w"
    unfolding failed(1) by (simp add: favoritesDocument_alt addCountryToFavorites_catch_def split: option.splits)
  then show ?thesis
    using failed(2) by auto
next
  case present
  have "favoritesDocument (fst (addCountryToFavorites g r country w s)) = favoritesDocument w"
    unfolding present(1) by (simp add: favoritesDocument_alt split: option.splits)
  then show ?thesis
    using present(4) by simp
next
  case (added u)
  have "favoritesDocument (fst (addCountryToFavorites g r country w s)) =
          Some \<lparr>countries = Some (currentCountries w @ [country])\<rparr>"
    unfolding added(1) by (simp add: favoritesDocument_alt added(2))
  then show ?thesis
    using added(2-) by (simp add: signedIn_def)
qed

lemma addCountryToFavorites_effect:
  "snd (addCountryToFavorites g r country w s) =
     (if signedIn w \<and> g \<and> r \<and> cca2 country \<notin> cca2 ` set (currentCountries w)
      then s\<lparr>countryAlreadyAdded := True\<rparr> else s)
   \<and> (\<not> (signedIn w \<and> g \<and> r \<and> cca2 country \<notin> cca2 ` set (currentCountries w))
        \<longrightarrow> db (fst (addCountryToFavorites g r country w s)) = db w)"
proof (cases rule: addCountryToFavorites_cases [where g = g and r = r and country = country and w = w and s = s])
  case (failed err)
  then show ?thesis
    by (auto simp: addCountryToFavorites_catch_def)
next
  case present
  then show ?thesis
    by auto
next
  case (added u)
  then show ?thesis
    by (auto simp: signedIn_def)
qed

lemma deleteCountryFromFavorites_document:
  "favoritesDocument (fst (deleteCountryFromFavorites wr rr country w s)) =
     (if signedIn w \<and> wr then
        (if filter (\<lambda>i. cca2 i \<noteq> cca2 country) (countriesFromDB s) = [] then None
         else (case favoritesDocument w of
                 None \<Rightarrow> None
               | Some d \<Rightarrow> Some (d\<lparr>countries :=
                    Some (filter (\<lambda>i. cca2 i \<noteq> cca2 country) (countriesFromDB s))\<rparr>)))
      else favoritesDocument w)"
proof (cases rule: deleteCountryFromFavorites_cases [where wr = wr and rr = rr and country = country and w = w and s = s])
  case (failed err)
  have "favoritesDocument (fst (deleteCountryFromFavorites wr rr country w s)) = favoritesDocument w"
    unfolding failed(1) by (simp add: favoritesDocument_alt deleteCountryFromFavorites_catch_def split: option.splits)
  then show ?thesis
    using failed(2) by auto
next
  case (updated u d)
  have "favoritesDocument (fst (deleteCountryFromFavorites wr rr country w s)) =
        favoritesDocument (w\<lparr>db := (db w)(doc ''favoriteCountries'' (uid u) \<mapsto>
            d\<lparr>countries := Some (filter (\<lambda>i. cca2 i \<noteq> cca2 country) (countriesFromDB s))\<rparr>),
            alerts := alerts w @ [name country @ '' was deleted from your favorites!'']\<rparr>)"
    unfolding updated(1) by (rule favoritesDocument_cong) (simp_all add: getCountriesFromDB_world)
  then show ?thesis
    using updated(2-) by (simp add: favoritesDocument_alt signedIn_def split: option.splits)
next
  case (deleted u)
  have "favoritesDocument (fst (deleteCountryFromFavorites wr rr country w s)) = None"
    unfolding deleted(1) by (simp add: favoritesDocument_alt deleted(2))
  then show ?thesis
    using deleted(2-) by (simp add: signedIn_def)
qed

lemma deleteCountryFromFavorites_failed:
  assumes "\<not> signedIn w \<or> \<not> wr \<or>
    (filter (\<lambda>i. cca2 i \<noteq> cca2 country) (countriesFromDB s) \<noteq> [] \<and> favoritesDocument w = None)"
  shows "snd (deleteCountryFromFavorites wr rr country w s) = s
    \<and> db (fst (deleteCountryFromFavorites wr rr country w s)) = db w
    \<and> alerts (fst (deleteCountryFromFavorites wr rr country w s)) =
         alerts w @ [name country @ '' could not be deleted! Please try again'']"
proof (cases rule: deleteCountryFromFavorites_cases [where wr = wr and rr = rr and country = country and w = w and s = s])
  case (failed err)
  then show ?thesis
    by (simp add: deleteCountryFromFavorites_catch_def)
next
  case (updated u d)
  then show ?thesis
    using assms by (simp add: signedIn_def)
next
  case (deleted u)
  then show ?thesis
    using assms by (simp add: signedIn_def)
qed

lemma example_codes: "cca2 US = ''US''" "cca2 CA = ''CA''" "cca2 MX = ''MX''"
  by (simp_all add: US_def CA_def MX_def exampleCountry_def)

lemma example_names: "name US = ''United States''" "name CA = ''Canada''" "name MX = ''Mexico''"
  by (simp_all add: US_def CA_def MX_def exampleCountry_def)

lemma currentCountries_exampleWorld:
  "currentCountries (exampleWorld (Some \<lparr>countries = Some cs\<rparr>)) = cs"
  "currentCountries (exampleWorld None) = []"
  by (simp_all add: currentCountries_def favoritesDocument_exampleWorld)

lemma queryIsFavorite_absent: "favoritesDocument w = None \<Longrightarrow> \<not> queryIsFavorite gr code w"
  by (auto simp: queryIsFavorite_def getCountryFromDB_def favoritesDocument_def getDoc_def
        initial_details_screen_def Let_def split: sum.splits option.splits)

lemma filter_single_code:
  "distinct (map cca2 cs) \<Longrightarrow> code \<in> cca2 ` set cs \<Longrightarrow>
   length (filter (\<lambda>i. cca2 i \<noteq> code) cs) = length cs - 1"
proof (induction cs)
  case Nil
  then show ?case by simp
next
  case (Cons a cs)
  show ?case
  proof (cases "cca2 a = code")
    case True
    then have "code \<notin> cca2 ` set cs"
      using Cons.prems(1) by auto
    then have "filter (\<lambda>i. cca2 i \<noteq> code) cs = cs"
      by (auto simp: filter_id_conv)
    then show ?thesis using True by simp
  next
    case False
    then have "code \<in> cca2 ` set cs"
      using Cons.prems(2) by auto
    moreover from this have "cs \<noteq> []" by auto
    ultimately show ?thesis
      using Cons.IH Cons.prems(1) False by (cases cs) auto
  qed
qed

lemma getCountriesFromDB_resolved:
  "signedIn w \<Longrightarrow> fst (getCountriesFromDB True w s) = w"
  by (auto simp: getCountriesFromDB_def getDoc_def Let_def signedIn_def favoritesRef_def
        split: option.splits)

lemma deleteCountryFromFavorites_updated:
  assumes "signedIn w" and "favoritesDocument w = Some d"
    and "filter (\<lambda>i. cca2 i \<noteq> cca2 country) (countriesFromDB s) \<noteq> []"
  obtains u where "currentUser (auth w) = Some u"
    and "deleteCountryFromFavorites True rr country w s =
         getCountriesFromDB rr
           (w\<lparr>db := (db w)(doc ''favoriteCountries'' (uid u) \<mapsto>
                 d\<lparr>countries := Some (filter (\<lambda>i. cca2 i \<noteq> cca2 country) (countriesFromDB s))\<rparr>),
              alerts := alerts w @ [name country @ '' was deleted from your favorites!'']\<rparr>)
           (s\<lparr>countriesFromDB := filter (\<lambda>i. cca2 i \<noteq> cca2 country) (countriesFromDB s)\<rparr>)"
proof (cases rule: deleteCountryFromFavorites_cases [where wr = True and rr = rr and country = country and w = w and s = s])
  case (failed err)
  then show ?thesis using assms by simp
next
  case (updated u d')
  then show ?thesis using assms(2) that by simp
next
  case (deleted u)
  then show ?thesis using assms(3) by simp
qed

section \<open>Invariants of the stored document\<close>

text \<open>
  Claim C3. If the user's document, when it exists, holds a non-empty \<open>countries\<close>
  sequence, it still does after \<open>addCountryToFavorites\<close> and after
  \<open>deleteCountryFromFavorites\<close>, for every outcome of the store calls (the successful runs
  among them). In particular, with a single-entry document and the same single entry cached on
  the screen, removing that entry deletes the document: a read afterwards finds no document
  and the membership query answers false.
\<close>

theorem favoritesInvariant_preserved:
  "(favoritesInvariant w \<longrightarrow>
      favoritesInvariant (fst (addCountryToFavorites g r country w s))
      \<and> favoritesInvariant (fst (deleteCountryFromFavorites wr rr country w fs)))
   \<and> (signedIn w \<and> favoritesDocument w = Some \<lparr>countries = Some [country]\<rparr>
        \<and> countriesFromDB fs = [country] \<longrightarrow>
      favoritesDocument (fst (deleteCountryFromFavorites True rr country w fs)) = None
      \<and> \<not> queryIsFavorite True (cca2 country) (fst (deleteCountryFromFavorites True rr country w fs)))"
proof -
  have a: "favoritesInvariant (fst (addCountryToFavorites g r country w s))"
    if "favoritesInvariant w"
    using that
    by (simp add: favoritesInvariant_def addCountryToFavorites_document)
  have b: "favoritesInvariant (fst (deleteCountryFromFavorites wr rr country w fs))"
    if "favoritesInvariant w"
    using that
    by (simp add: favoritesInvariant_def deleteCountryFromFavorites_document split: option.splits)
  have c: "favoritesDocument (fst (deleteCountryFromFavorites True rr country w fs)) = None"
    if "signedIn w" and "countriesFromDB fs = [country]"
    using that by (simp add: deleteCountryFromFavorites_document)
  from a b c show ?thesis
    by (simp add: queryIsFavorite_absent)
qed

theorem favoritesInvariant_preserved_witness:
  "favoritesInvariant (exampleWorld (Some \<lparr>countries = Some [US]\<rparr>))
   \<and> signedIn (exampleWorld (Some \<lparr>countries = Some [US]\<rparr>))
   \<and> favoritesDocument (exampleWorld (Some \<lparr>countries = Some [US]\<rparr>)) = Some \<lparr>countries = Some [US]\<rparr>
   \<and> countriesFromDB \<lparr>countriesFromDB = [US], emptyFavoritesFromDB = False\<rparr> = [US]
   \<and> favoritesInvariant (fst (addCountryToFavorites True True US
         (exampleWorld (Some \<lparr>countries = Some [US]\<rparr>)) initial_details_screen))
   \<and> favoritesInvariant (fst (deleteCountryFromFavorites True True US
         (exampleWorld (Some \<lparr>countries = Some [US]\<rparr>))
         \<lparr>countriesFromDB = [US], emptyFavoritesFromDB = False\<rparr>))
   \<and> favoritesDocument (fst (deleteCountryFromFavorites True True US
         (exampleWorld (Some \<lparr>countries = Some [US]\<rparr>))
         \<lparr>countriesFromDB = [US], emptyFavoritesFromDB = False\<rparr>)) = None
   \<and> \<not> queryIsFavorite True ''US'' (fst (deleteCountryFromFavorites True True US
         (exampleWorld (Some \<lparr>countries = Some [US]\<rparr>))
         \<lparr>countriesFromDB = [US], emptyFavoritesFromDB = False\<rparr>))"
proof -
  let ?w = "exampleWorld (Some \<lparr>countries = Some [US]\<rparr>)"
  let ?fs = "\<lparr>countriesFromDB = [US], emptyFavoritesFromDB = False\<rparr>"
  have i1: "favoritesInvariant ?w"
    by (simp add: favoritesInvariant_def favoritesDocument_exampleWorld)
  have s1: "signedIn ?w"
    by (rule signedIn_exampleWorld)
  have d1: "favoritesDocument ?w = Some \<lparr>countries = Some [US]\<rparr>"
    by (rule favoritesDocument_exampleWorld)
  have c1: "countriesFromDB ?fs = [US]"
    by simp
  show ?thesis
    using favoritesInvariant_preserved
      [of ?w True True US initial_details_screen True True ?fs] i1 s1 d1 c1
    by (simp add: example_codes)
qed

section \<open>Removing a favourite\<close>

text \<open>
  Claim C5. A user is signed in, the user's document exists and the write resolves. The
  sequence cached on the screen has at least two entries, no two of them with the same code,
  and one of them has the code of the country to remove. Then \<open>deleteCountryFromFavorites\<close>
  stores, in the \<open>countries\<close> field of the document that stays present, the cached sequence
  (not the stored one) without the entries of that code; the cached sequence becomes that
  same sequence; the entries kept are in their original relative order, and exactly one
  entry went.
\<close>

theorem removeFavorite_filters_cached:
  assumes "signedIn w" and "favoritesDocument w = Some d"
    and "2 \<le> length (countriesFromDB s)" and "distinct (map cca2 (countriesFromDB s))"
    and "cca2 country \<in> cca2 ` set (countriesFromDB s)"
  shows "favoritesDocument (fst (deleteCountryFromFavorites True rr country w s)) =
           Some (d\<lparr>countries := Some (filter (\<lambda>i. cca2 i \<noteq> cca2 country) (countriesFromDB s))\<rparr>)
         \<and> countriesFromDB (snd (deleteCountryFromFavorites True rr country w s)) =
             filter (\<lambda>i. cca2 i \<noteq> cca2 country) (countriesFromDB s)
         \<and> subseq (filter (\<lambda>i. cca2 i \<noteq> cca2 country) (countriesFromDB s)) (countriesFromDB s)
         \<and> length (filter (\<lambda>i. cca2 i \<noteq> cca2 country) (countriesFromDB s)) =
             length (countriesFromDB s) - 1"
proof -
  let ?kept = "filter (\<lambda>i. cca2 i \<noteq> cca2 country) (countriesFromDB s)"
  have len: "length ?kept = length (countriesFromDB s) - 1"
    using assms(4,5) by (rule filter_single_code)
  then have ne: "?kept \<noteq> []"
    using assms(3) by auto
  have doc': "favoritesDocument (fst (deleteCountryFromFavorites True rr country w s)) =
           Some (d\<lparr>countries := Some ?kept\<rparr>)"
    using assms(1,2) ne by (simp add: deleteCountryFromFavorites_document)
  from assms(1,2) ne obtain u where u: "currentUser (auth w) = Some u"
    and run: "deleteCountryFromFavorites True rr country w s =
         getCountriesFromDB rr
           (w\<lparr>db := (db w)(doc ''favoriteCountries'' (uid u) \<mapsto> d\<lparr>countries := Some ?kept\<rparr>),
              alerts := alerts w @ [name country @ '' was deleted from your favorites!'']\<rparr>)
           (s\<lparr>countriesFromDB := ?kept\<rparr>)"
    by (rule deleteCountryFromFavorites_updated)
  have cached: "countriesFromDB (snd (deleteCountryFromFavorites True rr country w s)) = ?kept"
    unfolding run
    by (simp add: getCountriesFromDB_cached currentCountries_def favoritesDocument_alt u)
  from doc' cached len show ?thesis
    by simp
qed

theorem removeFavorite_filters_cached_witness:
  "signedIn (exampleWorld (Some \<lparr>countries = Some [US, CA, MX]\<rparr>))
   \<and> 2 \<le> length (countriesFromDB \<lparr>countriesFromDB = [US, CA, MX], emptyFavoritesFromDB = False\<rparr>)
   \<and> distinct (map cca2 (countriesFromDB \<lparr>countriesFromDB = [US, CA, MX], emptyFavoritesFromDB = False\<rparr>))
   \<and> cca2 CA \<in> cca2 ` set (countriesFromDB \<lparr>countriesFromDB = [US, CA, MX], emptyFavoritesFromDB = False\<rparr>)
   \<and> favoritesDocument (fst (deleteCountryFromFavorites True True CA
         (exampleWorld (Some \<lparr>countries = Some [US, CA, MX]\<rparr>))
         \<lparr>countriesFromDB = [US, CA, MX], emptyFavoritesFromDB = False\<rparr>))
       = Some \<lparr>countries = Some [US, MX]\<rparr>
   \<and> countriesFromDB (snd (deleteCountryFromFavorites True True CA
         (exampleWorld (Some \<lparr>countries = Some [US, CA, MX]\<rparr>))
         \<lparr>countriesFromDB = [US, CA, MX], emptyFavoritesFromDB = False\<rparr>)) = [US, MX]"
proof -
  let ?w = "exampleWorld (Some \<lparr>countries = Some [US, CA, MX]\<rparr>)"
  let ?fs = "\<lparr>countriesFromDB = [US, CA, MX], emptyFavoritesFromDB = False\<rparr>"
  have s1: "signedIn ?w"
    by (rule signedIn_exampleWorld)
  have d1: "favoritesDocument ?w = Some \<lparr>countries = Some [US, CA, MX]\<rparr>"
    by (rule favoritesDocument_exampleWorld)
  have l1: "2 \<le> length (countriesFromDB ?fs)"
    by simp
  have u1: "distinct (map cca2 (countriesFromDB ?fs))"
    by (simp add: example_codes)
  have m1: "cca2 CA \<in> cca2 ` set (countriesFromDB ?fs)"
    by simp
  show ?thesis
    using removeFavorite_filters_cached [OF s1 d1 l1 u1 m1, of True] s1 l1 u1 m1
    by (simp add: example_codes)
qed

section \<open>Uniqueness of codes\<close>

text \<open>
  Claim C6. If no two entries of the sequence read by \<open>addCountryToFavorites\<close> have the same
  code, no two entries of the sequence stored afterwards have the same code, whatever the
  outcome of the store calls: the country is appended only when \<open>find\<close> has gone through the
  whole sequence without a match.
\<close>

theorem addFavorite_keeps_codes_distinct:
  assumes "distinct (map cca2 (currentCountries w))"
  shows "distinct (map cca2 (currentCountries (fst (addCountryToFavorites g r country w s))))"
proof (cases "signedIn w \<and> g \<and> r \<and> cca2 country \<notin> cca2 ` set (currentCountries w)")
  case True
  then have "currentCountries (fst (addCountryToFavorites g r country w s)) =
      currentCountries w @ [country]"
    by (simp add: currentCountries_def [of "fst _"] addCountryToFavorites_document)
  then show ?thesis
    using True assms by auto
next
  case False
  then have "currentCountries (fst (addCountryToFavorites g r country w s)) = currentCountries w"
    by (simp add: currentCountries_def addCountryToFavorites_document)
  then show ?thesis
    using assms by simp
qed

theorem addFavorite_keeps_codes_distinct_witness:
  "distinct (map cca2 (currentCountries (exampleWorld (Some \<lparr>countries = Some [US, CA]\<rparr>))))
   \<and> distinct (map cca2 (currentCountries (fst (addCountryToFavorites True True MX
         (exampleWorld (Some \<lparr>countries = Some [US, CA]\<rparr>)) initial_details_screen))))"
proof -
  let ?w = "exampleWorld (Some \<lparr>countries = Some [US, CA]\<rparr>)"
  have u1: "distinct (map cca2 (currentCountries ?w))"
    by (simp add: currentCountries_exampleWorld example_codes)
  show ?thesis
    using addFavorite_keeps_codes_distinct [OF u1, of True True MX initial_details_screen] u1
    by simp
qed

section \<open>Failures\<close>

text \<open>
  Claim C7. When the read or the write of \<open>addCountryToFavorites\<close> rejects, the screen
  state and the database are what they were; the favourited flag goes from false to true
  only in a run whose read and write both resolved and stored the sequence with the country
  appended. When the write of \<open>deleteCountryFromFavorites\<close> rejects, the cached sequence and
  the empty-state flag are what they were; they change only in a run whose write resolved
  for a signed-in user and left the store holding the filtered sequence.
\<close>

theorem failure_leaves_client_state:
  "(\<not> (g \<and> r) \<longrightarrow>
      snd (addCountryToFavorites g r country w s) = s
      \<and> db (fst (addCountryToFavorites g r country w s)) = db w)
   \<and> (countryAlreadyAdded (snd (addCountryToFavorites g2 r2 country w s2)) \<and> \<not> countryAlreadyAdded s2 \<longrightarrow>
      g2 \<and> r2
      \<and> favoritesDocument (fst (addCountryToFavorites g2 r2 country w s2)) =
          Some \<lparr>countries = Some (currentCountries w @ [country])\<rparr>)
   \<and> (\<not> wr \<longrightarrow>
      snd (deleteCountryFromFavorites wr rr country2 w fs) = fs
      \<and> db (fst (deleteCountryFromFavorites wr rr country2 w fs)) = db w)
   \<and> (snd (deleteCountryFromFavorites wr2 rr2 country2 w fs2) \<noteq> fs2 \<longrightarrow>
      wr2 \<and> signedIn w
      \<and> currentCountries (fst (deleteCountryFromFavorites wr2 rr2 country2 w fs2)) =
          filter (\<lambda>i. cca2 i \<noteq> cca2 country2) (countriesFromDB fs2))"
proof -
  have a: "snd (addCountryToFavorites g r country w s) = s
      \<and> db (fst (addCountryToFavorites g r country w s)) = db w" if "\<not> (g \<and> r)"
    using that addCountryToFavorites_effect [of g r country w s] by auto
  have b: "g2 \<and> r2 \<and> favoritesDocument (fst (addCountryToFavorites g2 r2 country w s2)) =
          Some \<lparr>countries = Some (currentCountries w @ [country])\<rparr>"
    if "countryAlreadyAdded (snd (addCountryToFavorites g2 r2 country w s2))"
      and "\<not> countryAlreadyAdded s2"
  proof -
    have "signedIn w \<and> g2 \<and> r2 \<and> cca2 country \<notin> cca2 ` set (currentCountries w)"
      using that addCountryToFavorites_effect [of g2 r2 country w s2]
      by (auto split: if_splits)
    then show ?thesis
      by (simp add: addCountryToFavorites_document)
  qed
  have c: "snd (deleteCountryFromFavorites wr rr country2 w fs) = fs
      \<and> db (fst (deleteCountryFromFavorites wr rr country2 w fs)) = db w" if "\<not> wr"
    using that deleteCountryFromFavorites_failed [of w wr country2 fs rr] by simp
  have d: "wr2 \<and> signedIn w
      \<and> currentCountries (fst (deleteCountryFromFavorites wr2 rr2 country2 w fs2)) =
          filter (\<lambda>i. cca2 i \<noteq> cca2 country2) (countriesFromDB fs2)"
    if ch: "snd (deleteCountryFromFavorites wr2 rr2 country2 w fs2) \<noteq> fs2"
  proof -
    let ?kept = "filter (\<lambda>i. cca2 i \<noteq> cca2 country2) (countriesFromDB fs2)"
    have ok: "signedIn w \<and> wr2 \<and> \<not> (?kept \<noteq> [] \<and> favoritesDocument w = None)"
      using ch deleteCountryFromFavorites_failed [of w wr2 country2 fs2 rr2] by blast
    then have "currentCountries (fst (deleteCountryFromFavorites wr2 rr2 country2 w fs2)) = ?kept"
      by (auto simp: currentCountries_def [of "fst _"] deleteCountryFromFavorites_document)
    with ok show ?thesis by simp
  qed
  from a b c d show ?thesis by blast
qed

theorem failure_leaves_client_state_witness:
  "snd (addCountryToFavorites True False MX (exampleWorld (Some \<lparr>countries = Some [US]\<rparr>))
      initial_details_screen) = initial_details_screen
   \<and> db (fst (addCountryToFavorites True False MX (exampleWorld (Some \<lparr>countries = Some [US]\<rparr>))
      initial_details_screen)) = db (exampleWorld (Some \<lparr>countries = Some [US]\<rparr>))
   \<and> countryAlreadyAdded (snd (addCountryToFavorites True True MX
        (exampleWorld (Some \<lparr>countries = Some [US]\<rparr>)) initial_details_screen))
   \<and> \<not> countryAlreadyAdded initial_details_screen
   \<and> favoritesDocument (fst (addCountryToFavorites True True MX
        (exampleWorld (Some \<lparr>countries = Some [US]\<rparr>)) initial_details_screen)) =
       Some \<lparr>countries = Some [US, MX]\<rparr>
   \<and> snd (deleteCountryFromFavorites False True US (exampleWorld (Some \<lparr>countries = Some [US]\<rparr>))
        \<lparr>countriesFromDB = [US], emptyFavoritesFromDB = False\<rparr>)
       = \<lparr>countriesFromDB = [US], emptyFavoritesFromDB = False\<rparr>
   \<and> snd (deleteCountryFromFavorites True True US (exampleWorld (Some \<lparr>countries = Some [US]\<rparr>))
        \<lparr>countriesFromDB = [US], emptyFavoritesFromDB = False\<rparr>)
       \<noteq> \<lparr>countriesFromDB = [US], emptyFavoritesFromDB = False\<rparr>
   \<and> currentCountries (fst (deleteCountryFromFavorites True True US
        (exampleWorld (Some \<lparr>countries = Some [US]\<rparr>))
        \<lparr>countriesFromDB = [US], emptyFavoritesFromDB = False\<rparr>)) = []"
proof -
  let ?w = "exampleWorld (Some \<lparr>countries = Some [US]\<rparr>)"
  let ?fs = "\<lparr>countriesFromDB = [US], emptyFavoritesFromDB = False\<rparr>"
  have f: "countryAlreadyAdded (snd (addCountryToFavorites True True MX ?w initial_details_screen))"
    by (simp add: addCountryToFavorites_effect signedIn_exampleWorld currentCountries_exampleWorld
          example_codes)
  have n: "\<not> countryAlreadyAdded initial_details_screen"
    by (simp add: initial_details_screen_def)
  have ch: "snd (deleteCountryFromFavorites True True US ?w ?fs) \<noteq> ?fs"
    by (simp add: deleteCountryFromFavorites_def favoritesRef_exampleWorld deleteDoc_def)
  show ?thesis
    using failure_leaves_client_state
      [where g = True and r = False and country = MX and w = ?w and s = initial_details_screen
         and ?g2.0 = True and ?r2.0 = True and ?s2.0 = initial_details_screen
         and wr = False and rr = True and ?country2.0 = US and fs = ?fs
         and ?wr2.0 = True and ?rr2.0 = True and ?fs2.0 = ?fs] f n ch
    by (simp add: currentCountries_exampleWorld example_codes)
qed

section \<open>Removing a country that is not in the list\<close>

lemma deleteCountryFromFavorites_updated_eq:
  assumes "currentUser (auth w) = Some u" and "favoritesDocument w = Some d"
    and "filter (\<lambda>i. cca2 i \<noteq> cca2 country) (countriesFromDB s) \<noteq> []"
  shows "deleteCountryFromFavorites True rr country w s =
         getCountriesFromDB rr
           (w\<lparr>db := (db w)(doc ''favoriteCountries'' (uid u) \<mapsto>
                 d\<lparr>countries := Some (filter (\<lambda>i. cca2 i \<noteq> cca2 country) (countriesFromDB s))\<rparr>),
              alerts := alerts w @ [name country @ '' was deleted from your favorites!'']\<rparr>)
           (s\<lparr>countriesFromDB := filter (\<lambda>i. cca2 i \<noteq> cca2 country) (countriesFromDB s)\<rparr>)"
proof -
  have "db w (doc ''favoriteCountries'' (uid u)) = Some d"
    using assms(1,2) by (simp add: favoritesDocument_alt)
  then show ?thesis
    using assms(1,3)
    by (simp add: deleteCountryFromFavorites_def Let_def favoritesRef_def updateDoc_def)
qed

text \<open>
  Claim C8. A user is signed in, the user's document exists and the write resolves. When
  the cached sequence is non-empty and none of its entries has the code of the country,
  \<open>deleteCountryFromFavorites\<close> still writes: the \<open>countries\<close> field of the document becomes
  the cached sequence, unchanged, and the user is told that the country was deleted (the
  only thing emitted when the refresh resolves too). There is no check for membership and
  no separate answer for a country that is not in the list.
\<close>

theorem removeFavorite_non_member:
  assumes "signedIn w" and "favoritesDocument w = Some d"
    and "countriesFromDB s \<noteq> []" and "cca2 country \<notin> cca2 ` set (countriesFromDB s)"
  shows "favoritesDocument (fst (deleteCountryFromFavorites True rr country w s)) =
           Some (d\<lparr>countries := Some (countriesFromDB s)\<rparr>)
         \<and> prefix (alerts w @ [name country @ '' was deleted from your favorites!''])
             (alerts (fst (deleteCountryFromFavorites True rr country w s)))
         \<and> emitted w (fst (deleteCountryFromFavorites True True country w s)) =
             ([name country @ '' was deleted from your favorites!''], [])"
proof -
  let ?kept = "filter (\<lambda>i. cca2 i \<noteq> cca2 country) (countriesFromDB s)"
  let ?w1 = "\<lambda>u. w\<lparr>db := (db w)(doc ''favoriteCountries'' (uid u) \<mapsto> d\<lparr>countries := Some ?kept\<rparr>),
              alerts := alerts w @ [name country @ '' was deleted from your favorites!'']\<rparr>"
  have same: "?kept = countriesFromDB s"
    using assms(4) by (simp add: filter_id_conv) (metis imageI)
  then have ne: "?kept \<noteq> []"
    using assms(3) by simp
  have doc': "favoritesDocument (fst (deleteCountryFromFavorites True rr country w s)) =
           Some (d\<lparr>countries := Some (countriesFromDB s)\<rparr>)"
    using assms(1,2,3) by (simp add: deleteCountryFromFavorites_document same)
  from assms(1) obtain u where u: "currentUser (auth w) = Some u"
    by (auto simp: signedIn_def)
  have run: "deleteCountryFromFavorites True q country w s =
      getCountriesFromDB q (?w1 u) (s\<lparr>countriesFromDB := ?kept\<rparr>)" for q
    using u assms(2) ne by (rule deleteCountryFromFavorites_updated_eq)
  have "prefix (alerts (?w1 u)) (alerts (fst (getCountriesFromDB rr (?w1 u) (s\<lparr>countriesFromDB := ?kept\<rparr>))))"
    using getCountriesFromDB_world by blast
  then have pre: "prefix (alerts w @ [name country @ '' was deleted from your favorites!''])
             (alerts (fst (deleteCountryFromFavorites True rr country w s)))"
    unfolding run by simp
  have "signedIn (?w1 u)"
    using u by (simp add: signedIn_def)
  then have "fst (getCountriesFromDB True (?w1 u) (s\<lparr>countriesFromDB := ?kept\<rparr>)) = ?w1 u"
    by (rule getCountriesFromDB_resolved)
  then have em: "emitted w (fst (deleteCountryFromFavorites True True country w s)) =
             ([name country @ '' was deleted from your favorites!''], [])"
    unfolding run by (simp add: emitted_def)
  from doc' pre em show ?thesis by simp
qed

theorem removeFavorite_non_member_witness:
  "signedIn (exampleWorld (Some \<lparr>countries = Some [US, CA]\<rparr>))
   \<and> countriesFromDB \<lparr>countriesFromDB = [US, CA], emptyFavoritesFromDB = False\<rparr> \<noteq> []
   \<and> cca2 MX \<notin> cca2 ` set (countriesFromDB \<lparr>countriesFromDB = [US, CA], emptyFavoritesFromDB = False\<rparr>)
   \<and> favoritesDocument (fst (deleteCountryFromFavorites True True MX
        (exampleWorld (Some \<lparr>countries = Some [US, CA]\<rparr>))
        \<lparr>countriesFromDB = [US, CA], emptyFavoritesFromDB = False\<rparr>)) =
       Some \<lparr>countries = Some [US, CA]\<rparr>
   \<and> emitted (exampleWorld (Some \<lparr>countries = Some [US, CA]\<rparr>))
        (fst (deleteCountryFromFavorites True True MX
          (exampleWorld (Some \<lparr>countries = Some [US, CA]\<rparr>))
          \<lparr>countriesFromDB = [US, CA], emptyFavoritesFromDB = False\<rparr>)) =
       ([''Mexico was deleted from your favorites!''], [])"
proof -
  let ?w = "exampleWorld (Some \<lparr>countries = Some [US, CA]\<rparr>)"
  let ?fs = "\<lparr>countriesFromDB = [US, CA], emptyFavoritesFromDB = False\<rparr>"
  have s1: "signedIn ?w"
    by (rule signedIn_exampleWorld)
  have d1: "favoritesDocument ?w = Some \<lparr>countries = Some [US, CA]\<rparr>"
    by (rule favoritesDocument_exampleWorld)
  have n1: "countriesFromDB ?fs \<noteq> []"
    by simp
  have m1: "cca2 MX \<notin> cca2 ` set (countriesFromDB ?fs)"
    by (simp add: example_codes)
  show ?thesis
    using removeFavorite_non_member [OF s1 d1 n1 m1, of True] s1 n1 m1
    by (simp add: example_names)
qed

section \<open>Refreshing the list\<close>

lemma getCountriesFromDB_unchanged:
  assumes "signedIn w" and "currentCountries w = []"
  shows "getCountriesFromDB True w s = (w, s)"
proof -
  from assms(1) obtain u where u: "currentUser (auth w) = Some u"
    and ref: "favoritesRef w = Inr (doc ''favoriteCountries'' (uid u))"
    by (rule signedInE)
  show ?thesis
    using assms(2)
    by (auto simp: getCountriesFromDB_def ref getDoc_def Let_def currentCountries_signedIn [OF ref]
          split: option.splits)
qed

text \<open>
  Claim C9, as amended. A user is signed in and the read resolves. When the user's document
  exists but its \<open>countries\<close> field is missing or an empty array, \<open>getCountriesFromDB\<close>
  changes nothing on the screen: the empty-state flag keeps the value it had and the cached
  list is not replaced, and the screen afterwards is the one a missing document gives. So a
  screen in the empty-favourites state stays in it, and a screen that shows a list keeps
  showing it.
\<close>

theorem refresh_present_but_empty:
  assumes "signedIn w" and "favoritesDocument w = Some d"
    and "countries d = None \<or> countries d = Some []"
  shows "getCountriesFromDB True w s = (w, s)
         \<and> emptyFavoritesFromDB (snd (getCountriesFromDB True w s)) = emptyFavoritesFromDB s
         \<and> countriesFromDB (snd (getCountriesFromDB True w s)) = countriesFromDB s
         \<and> (signedIn w0 \<and> favoritesDocument w0 = None \<longrightarrow>
              snd (getCountriesFromDB True w0 s) = snd (getCountriesFromDB True w s))"
proof -
  have "currentCountries w = []"
    using assms(2,3) by (auto simp: currentCountries_def)
  with assms(1) have run: "getCountriesFromDB True w s = (w, s)"
    by (rule getCountriesFromDB_unchanged)
  have "getCountriesFromDB True w0 s = (w0, s)" if "signedIn w0" and "favoritesDocument w0 = None"
    using that by (simp add: getCountriesFromDB_unchanged currentCountries_def)
  with run show ?thesis by simp
qed

theorem refresh_present_but_empty_witness:
  "signedIn (exampleWorld (Some \<lparr>countries = Some []\<rparr>))
   \<and> favoritesDocument (exampleWorld (Some \<lparr>countries = Some []\<rparr>)) = Some \<lparr>countries = Some []\<rparr>
   \<and> signedIn (exampleWorld None) \<and> favoritesDocument (exampleWorld None) = None
   \<and> getCountriesFromDB True (exampleWorld (Some \<lparr>countries = Some []\<rparr>)) initial_favorites_screen
       = (exampleWorld (Some \<lparr>countries = Some []\<rparr>), initial_favorites_screen)
   \<and> emptyFavoritesFromDB (snd (getCountriesFromDB True
         (exampleWorld (Some \<lparr>countries = Some []\<rparr>)) initial_favorites_screen))
   \<and> countriesFromDB (snd (getCountriesFromDB True
         (exampleWorld (Some \<lparr>countries = Some []\<rparr>)) initial_favorites_screen)) = []
   \<and> snd (getCountriesFromDB True (exampleWorld None) initial_favorites_screen)
       = initial_favorites_screen"
proof -
  let ?w = "exampleWorld (Some \<lparr>countries = Some []\<rparr>)"
  have s1: "signedIn ?w" and s0: "signedIn (exampleWorld None)"
    by (rule signedIn_exampleWorld)+
  have d1: "favoritesDocument ?w = Some \<lparr>countries = Some []\<rparr>"
    and d0: "favoritesDocument (exampleWorld None) = None"
    by (rule favoritesDocument_exampleWorld)+
  have c1: "countries \<lparr>countries = Some []\<rparr> = None \<or> countries \<lparr>countries = Some []\<rparr> = Some []"
    by simp
  have e1: "emptyFavoritesFromDB (initial_favorites_screen :: int favorites_screen)"
    and e2: "countriesFromDB (initial_favorites_screen :: int favorites_screen) = []"
    by (simp_all add: initial_favorites_screen_def)
  show ?thesis
    using refresh_present_but_empty [OF s1 d1 c1, of initial_favorites_screen "exampleWorld None"]
      s1 s0 d1 d0 e1 e2
    by simp
qed

text \<open>
  Claim C9, as first stated, has the refresh leave the screen in the empty-favourites state.
  It does not when the screen shows a list: with \<open>[US, CA]\<close> cached and the empty-state flag
  false, a resolving read of a document whose \<open>countries\<close> array is empty leaves the flag
  false and the two countries on the screen.
\<close>

theorem refresh_present_but_empty_counterexample:
  "signedIn (exampleWorld (Some \<lparr>countries = Some []\<rparr>))
   \<and> favoritesDocument (exampleWorld (Some \<lparr>countries = Some []\<rparr>)) = Some \<lparr>countries = Some []\<rparr>
   \<and> \<not> emptyFavoritesFromDB (snd (getCountriesFromDB True
           (exampleWorld (Some \<lparr>countries = Some []\<rparr>))
           \<lparr>countriesFromDB = [US, CA], emptyFavoritesFromDB = False\<rparr>))
   \<and> countriesFromDB (snd (getCountriesFromDB True
           (exampleWorld (Some \<lparr>countries = Some []\<rparr>))
           \<lparr>countriesFromDB = [US, CA], emptyFavoritesFromDB = False\<rparr>)) = [US, CA]"
proof -
  let ?w = "exampleWorld (Some \<lparr>countries = Some []\<rparr>)"
  have s1: "signedIn ?w"
    by (rule signedIn_exampleWorld)
  have d1: "favoritesDocument ?w = Some \<lparr>countries = Some []\<rparr>"
    by (rule favoritesDocument_exampleWorld)
  have "currentCountries ?w = []"
    by (rule currentCountries_exampleWorld)
  with s1 have "getCountriesFromDB True ?w \<lparr>countriesFromDB = [US, CA], emptyFavoritesFromDB = False\<rparr>
      = (?w, \<lparr>countriesFromDB = [US, CA], emptyFavoritesFromDB = False\<rparr>)"
    by (rule getCountriesFromDB_unchanged)
  with s1 d1 show ?thesis
    by simp
qed

end
